theory Spec2Isabelle
  imports Main
begin

section \<open>The equipment schema\<close>

text \<open>
  The equipment rules of the application live in its SQL migrations: three tables
  (\<open>items\<close>, \<open>hero_inventory\<close>, \<open>hero_equipment\<close>), two enum types and two
  row-level triggers on \<open>hero_equipment\<close>. The four revisions of the migrations agree
  on the slot condition and on the two-handed trigger; the first states the condition as a
  \<open>CHECK\<close> constraint, the later three as the trigger function
  \<open>validate_equipment_slot\<close>. The embedding follows
  \<open>supabase/migrations/20250207041930_wispy_waterfall.sql\<close>.

  \<^verbatim>\<open>CREATE TYPE equipment_slot AS ENUM ('helm', 'weapon', 'shield', 'armor', 'gloves');\<close>
  \<^verbatim>\<open>CREATE TYPE item_type AS ENUM ('helm', 'weapon', 'shield', 'armor', 'gloves',
                                 'two_handed_weapon', 'robe');\<close>
  The two enums share five labels, so the constructors of the slot type carry a prefix.
\<close>

datatype equipment_slot = Slot_helm | Slot_weapon | Slot_shield | Slot_armor | Slot_gloves

datatype item_type = Helm | Weapon | Shield | Armor | Gloves | Two_handed_weapon | Robe

text \<open>A \<open>uuid\<close> is an opaque key; only equality on it is used.\<close>

type_synonym uuid = nat

text \<open>
  What a statement can fail with: the \<open>RAISE EXCEPTION\<close> of a trigger function (with its
  message), an enum cast of a text that is no label of the enum, and the violations of the
  declared constraints (\<open>REFERENCES\<close>, \<open>PRIMARY KEY\<close>).
\<close>

datatype error =
    Raised_exception string
  | Invalid_enum_input string
  | Foreign_key_violation string
  | Unique_violation string

text \<open>
  A row of \<open>items\<close> without its key and its \<open>created_at\<close>; \<open>description\<close> is nullable.
  \<open>item_types\<close> is the \<open>item_type[]\<close> array. A NULL element of the array never makes
  \<open>x = ANY(item_types)\<close> true, so the list holds the array's non-null elements.
\<close>

record item =
  name :: string
  description :: "string option"
  item_types :: "item_type list"

text \<open>
  A row of \<open>hero_equipment\<close>, as the triggers see it in \<open>NEW\<close>. The column
  \<open>equipped_at\<close> (\<open>DEFAULT now()\<close>) is read by no trigger and depends on the clock;
  it is left out. A NULL \<open>item_id\<close> selects no row of \<open>items\<close>, exactly as an id that
  is not in the table does, so \<open>item_id\<close> is a plain key here.
\<close>

record hero_equipment_row =
  hero_id :: uuid
  item_id :: uuid
  slot :: equipment_slot

text \<open>
  The tables, each a map from its primary key: \<open>heroes\<close> by \<open>id\<close> (only the keys
  matter here), \<open>items\<close> by \<open>id\<close>, \<open>hero_inventory\<close> by \<open>(hero_id, item_id)\<close> to
  its \<open>quantity\<close>, \<open>hero_equipment\<close> by \<open>(hero_id, slot)\<close> to its \<open>item_id\<close>.
\<close>

record db =
  heroes :: "uuid set"
  items :: "uuid \<rightharpoonup> item"
  hero_inventory :: "uuid \<times> uuid \<rightharpoonup> int"
  hero_equipment :: "uuid \<times> equipment_slot \<rightharpoonup> uuid"

section \<open>The slot predicate\<close>

text \<open>
  \<open>NEW.slot::text::item_type\<close> prints the slot's label and reads it back as an
  \<open>item_type\<close>; reading a text that is not a label of \<open>item_type\<close> fails.
\<close>

fun equipment_slot_text :: "equipment_slot \<Rightarrow> string" where
  "equipment_slot_text Slot_helm = ''helm''"
| "equipment_slot_text Slot_weapon = ''weapon''"
| "equipment_slot_text Slot_shield = ''shield''"
| "equipment_slot_text Slot_armor = ''armor''"
| "equipment_slot_text Slot_gloves = ''gloves''"

definition item_type_of_text :: "string \<Rightarrow> error + item_type" where
  "item_type_of_text t =
     (if t = ''helm'' then Inr Helm
      else if t = ''weapon'' then Inr Weapon
      else if t = ''shield'' then Inr Shield
      else if t = ''armor'' then Inr Armor
      else if t = ''gloves'' then Inr Gloves
      else if t = ''two_handed_weapon'' then Inr Two_handed_weapon
      else if t = ''robe'' then Inr Robe
      else Inl (Invalid_enum_input t))"

text \<open>
  The condition on a row of \<open>items\<close> in \<open>validate_equipment_slot\<close> (and in the
  \<open>valid_equipment_slot\<close> check of the first revision):
  \<^verbatim>\<open>NEW.slot::text::item_type = ANY(item_types)
  OR (NEW.slot IN ('weapon', 'shield') AND 'two_handed_weapon' = ANY(item_types))
  OR (NEW.slot IN ('armor', 'helm') AND 'robe' = ANY(item_types))\<close>
\<close>

definition valid_equipment_slot :: "item_type list \<Rightarrow> equipment_slot \<Rightarrow> error + bool" where
  "valid_equipment_slot tys s =
     (case item_type_of_text (equipment_slot_text s) of
        Inl e \<Rightarrow> Inl e
      | Inr t \<Rightarrow>
          Inr (t \<in> set tys
               \<or> (s \<in> {Slot_weapon, Slot_shield} \<and> Two_handed_weapon \<in> set tys)
               \<or> (s \<in> {Slot_armor, Slot_helm} \<and> Robe \<in> set tys)))"

section \<open>The trigger functions\<close>

text \<open>
  A trigger function gets the database and \<open>NEW\<close>, and returns both or raises.
  \<^verbatim>\<open>IF NOT EXISTS (SELECT 1 FROM items WHERE id = NEW.item_id AND (...)) THEN
    RAISE EXCEPTION 'Item cannot be equipped in the specified slot';
  END IF;
  RETURN NEW;\<close>
  \<open>id\<close> is the primary key of \<open>items\<close>, so at most one row is tested.
\<close>

definition validate_equipment_slot ::
  "db \<Rightarrow> hero_equipment_row \<Rightarrow> error + db \<times> hero_equipment_row" where
  "validate_equipment_slot d new =
     (case items d (item_id new) of
        None \<Rightarrow> Inl (Raised_exception ''Item cannot be equipped in the specified slot'')
      | Some it \<Rightarrow>
          (case valid_equipment_slot (item_types it) (slot new) of
             Inl e \<Rightarrow> Inl e
           | Inr ok \<Rightarrow>
               if \<not> ok
               then Inl (Raised_exception ''Item cannot be equipped in the specified slot'')
               else Inr (d, new)))"

text \<open>
  \<^verbatim>\<open>IF EXISTS (SELECT 1 FROM items WHERE id = NEW.item_id
             AND 'two_handed_weapon' = ANY(item_types)) THEN
    DELETE FROM hero_equipment
    WHERE hero_id = NEW.hero_id AND slot IN ('weapon', 'shield') AND slot != NEW.slot;
  END IF;
  RETURN NEW;\<close>
  No trigger is declared for \<open>DELETE\<close>, so the inner statement only removes rows.
\<close>

definition check_two_handed_weapon ::
  "db \<Rightarrow> hero_equipment_row \<Rightarrow> error + db \<times> hero_equipment_row" where
  "check_two_handed_weapon d new =
     (if (case items d (item_id new) of
            None \<Rightarrow> False
          | Some it \<Rightarrow> Two_handed_weapon \<in> set (item_types it))
      then Inr (d\<lparr>hero_equipment :=
                     (\<lambda>(h, s). if h = hero_id new \<and> s \<in> {Slot_weapon, Slot_shield} \<and> s \<noteq> slot new
                               then None else hero_equipment d (h, s))\<rparr>, new)
      else Inr (d, new))"

section \<open>The triggers on \<open>hero_equipment\<close>\<close>

datatype tg_timing = BEFORE | AFTER

datatype tg_event = INSERT | UPDATE | DELETE

record trigger =
  tg_name :: string
  tg_timing :: tg_timing
  tg_events :: "tg_event list"
  tg_when :: "hero_equipment_row \<Rightarrow> bool"
  tg_function :: "db \<Rightarrow> hero_equipment_row \<Rightarrow> error + db \<times> hero_equipment_row"

text \<open>
  \<^verbatim>\<open>CREATE TRIGGER validate_equipment_slot_trigger
    BEFORE INSERT OR UPDATE ON hero_equipment
    FOR EACH ROW EXECUTE FUNCTION validate_equipment_slot();\<close>
\<close>

definition validate_equipment_slot_trigger :: trigger where
  "validate_equipment_slot_trigger =
     \<lparr>tg_name = ''validate_equipment_slot_trigger'',
      tg_timing = BEFORE,
      tg_events = [INSERT, UPDATE],
      tg_when = (\<lambda>new. True),
      tg_function = validate_equipment_slot\<rparr>"

text \<open>
  \<^verbatim>\<open>CREATE TRIGGER enforce_two_handed_weapon
    AFTER INSERT OR UPDATE ON hero_equipment
    FOR EACH ROW
    WHEN (NEW.slot IN ('weapon', 'shield'))
    EXECUTE FUNCTION check_two_handed_weapon();\<close>
\<close>

definition enforce_two_handed_weapon :: trigger where
  "enforce_two_handed_weapon =
     \<lparr>tg_name = ''enforce_two_handed_weapon'',
      tg_timing = AFTER,
      tg_events = [INSERT, UPDATE],
      tg_when = (\<lambda>new. slot new \<in> {Slot_weapon, Slot_shield}),
      tg_function = check_two_handed_weapon\<rparr>"

definition hero_equipment_triggers :: "trigger list" where
  "hero_equipment_triggers = [validate_equipment_slot_trigger, enforce_two_handed_weapon]"

text \<open>
  Firing the row-level triggers of one timing and one event for a row: each trigger whose
  \<open>WHEN\<close> condition holds runs its function, in the order of the list; the first
  exception ends the statement.
\<close>

fun fire :: "trigger list \<Rightarrow> db \<Rightarrow> hero_equipment_row \<Rightarrow> error + db \<times> hero_equipment_row" where
  "fire [] d r = Inr (d, r)"
| "fire (t # ts) d r =
     (if tg_when t r
      then (case tg_function t d r of
              Inl e \<Rightarrow> Inl e
            | Inr (d', r') \<Rightarrow> fire ts d' r')
      else fire ts d r)"

definition triggers_for :: "tg_timing \<Rightarrow> tg_event \<Rightarrow> trigger list" where
  "triggers_for timing event =
     filter (\<lambda>t. tg_timing t = timing \<and> event \<in> set (tg_events t)) hero_equipment_triggers"

section \<open>Statements on \<open>hero_equipment\<close>\<close>

text \<open>
  The foreign keys of a stored row:
  \<^verbatim>\<open>hero_id uuid REFERENCES heroes(id) ON DELETE CASCADE,
  item_id uuid REFERENCES items(id) ON DELETE CASCADE,\<close>
  An \<open>INSERT\<close> checks both; an \<open>UPDATE\<close> checks the reference of the column it
  writes.
\<close>

definition check_hero_reference :: "db \<Rightarrow> hero_equipment_row \<Rightarrow> error + db" where
  "check_hero_reference d r =
     (if hero_id r \<notin> heroes d then Inl (Foreign_key_violation ''hero_equipment_hero_id_fkey'')
      else Inr d)"

definition check_item_reference :: "db \<Rightarrow> hero_equipment_row \<Rightarrow> error + db" where
  "check_item_reference d r =
     (if items d (item_id r) = None
      then Inl (Foreign_key_violation ''hero_equipment_item_id_fkey'')
      else Inr d)"

definition check_references :: "db \<Rightarrow> hero_equipment_row \<Rightarrow> error + db" where
  "check_references d r =
     (case check_hero_reference d r of
        Inl e \<Rightarrow> Inl e
      | Inr d' \<Rightarrow> check_item_reference d' r)"

definition store_row :: "db \<Rightarrow> hero_equipment_row \<Rightarrow> db" where
  "store_row d r = d\<lparr>hero_equipment := (hero_equipment d)((hero_id r, slot r) \<mapsto> item_id r)\<rparr>"

text \<open>
  \<open>INSERT INTO hero_equipment (hero_id, item_id, slot) VALUES (...)\<close>: the \<open>BEFORE\<close>
  triggers, the \<open>PRIMARY KEY (hero_id, slot)\<close>, the row, its references, the \<open>AFTER\<close>
  triggers.
\<close>

definition insert_hero_equipment :: "db \<Rightarrow> hero_equipment_row \<Rightarrow> error + db" where
  "insert_hero_equipment d r =
     (case fire (triggers_for BEFORE INSERT) d r of
        Inl e \<Rightarrow> Inl e
      | Inr (d1, r1) \<Rightarrow>
          if hero_equipment d1 (hero_id r1, slot r1) \<noteq> None
          then Inl (Unique_violation ''hero_equipment_pkey'')
          else (case check_references (store_row d1 r1) r1 of
                  Inl e \<Rightarrow> Inl e
                | Inr d2 \<Rightarrow>
                    (case fire (triggers_for AFTER INSERT) d2 r1 of
                       Inl e \<Rightarrow> Inl e
                     | Inr (d3, _) \<Rightarrow> Inr d3)))"

text \<open>
  \<open>UPDATE hero_equipment SET item_id = i WHERE hero_id = h AND slot = s\<close>: without a
  row for the key nothing happens and no row-level trigger fires.
\<close>

definition update_hero_equipment :: "db \<Rightarrow> uuid \<Rightarrow> equipment_slot \<Rightarrow> uuid \<Rightarrow> error + db" where
  "update_hero_equipment d h s i =
     (case hero_equipment d (h, s) of
        None \<Rightarrow> Inr d
      | Some _ \<Rightarrow>
          (case fire (triggers_for BEFORE UPDATE) d \<lparr>hero_id = h, item_id = i, slot = s\<rparr> of
             Inl e \<Rightarrow> Inl e
           | Inr (d1, r1) \<Rightarrow>
               (case check_item_reference (store_row d1 r1) r1 of
                  Inl e \<Rightarrow> Inl e
                | Inr d2 \<Rightarrow>
                    (case fire (triggers_for AFTER UPDATE) d2 r1 of
                       Inl e \<Rightarrow> Inl e
                     | Inr (d3, _) \<Rightarrow> Inr d3))))"

text \<open>
  \<open>DELETE FROM hero_equipment WHERE hero_id = h AND slot = s\<close>: the row-level triggers
  declared for \<open>DELETE\<close> fire around the removal of the row, if there is one.
\<close>

definition delete_hero_equipment :: "db \<Rightarrow> uuid \<Rightarrow> equipment_slot \<Rightarrow> error + db" where
  "delete_hero_equipment d h s =
     (case hero_equipment d (h, s) of
        None \<Rightarrow> Inr d
      | Some i \<Rightarrow>
          (case fire (triggers_for BEFORE DELETE) d \<lparr>hero_id = h, item_id = i, slot = s\<rparr> of
             Inl e \<Rightarrow> Inl e
           | Inr (d1, r1) \<Rightarrow>
               (case fire (triggers_for AFTER DELETE)
                       (d1\<lparr>hero_equipment := (hero_equipment d1)((hero_id r1, slot r1) := None)\<rparr>) r1 of
                  Inl e \<Rightarrow> Inl e
                | Inr (d2, _) \<Rightarrow> Inr d2)))"

text \<open>
  A statement is atomic: when it raises, the database is what it was before the statement,
  and the caller gets the error.
\<close>

definition run_statement :: "db \<Rightarrow> (db \<Rightarrow> error + db) \<Rightarrow> error option \<times> db" where
  "run_statement d stmt = (case stmt d of Inl e \<Rightarrow> (Some e, d) | Inr d' \<Rightarrow> (None, d'))"

section \<open>Equip and unequip\<close>

text \<open>
  The repository holds no statement that writes \<open>hero_equipment\<close>: the migrations
  define what happens when a caller writes a row. The spec names the two writes.
  \<open>equip\<close> is the upsert of the row \<open>(hero, item, slot)\<close>: an \<open>INSERT\<close> when the
  hero has no row for the slot, an \<open>UPDATE\<close> of that row's \<open>item_id\<close> otherwise; both
  fire the same two triggers. The result is the error, if any, and the database after the
  statement.

  Row-level security is enabled on the three tables with policies for \<open>SELECT\<close> only;
  the statements here are those of a role it does not restrict (the owner of the tables),
  the only kind of role whose writes can succeed.
\<close>

definition equip :: "db \<Rightarrow> uuid \<Rightarrow> uuid \<Rightarrow> equipment_slot \<Rightarrow> error option \<times> db" where
  "equip d h i s =
     run_statement d
       (\<lambda>d. if hero_equipment d (h, s) = None
            then insert_hero_equipment d \<lparr>hero_id = h, item_id = i, slot = s\<rparr>
            else update_hero_equipment d h s i)"

text \<open>
  \<open>unequip\<close> is the \<open>DELETE\<close> of the hero's row for the slot.
\<close>

definition unequip :: "db \<Rightarrow> uuid \<Rightarrow> equipment_slot \<Rightarrow> error option \<times> db" where
  "unequip d h s = run_statement d (\<lambda>d. delete_hero_equipment d h s)"

text \<open>A sequence of operations, each of which has to succeed.\<close>

datatype operation = Equip uuid uuid equipment_slot | Unequip uuid equipment_slot

fun apply_operation :: "db \<Rightarrow> operation \<Rightarrow> error option \<times> db" where
  "apply_operation d (Equip h i s) = equip d h i s"
| "apply_operation d (Unequip h s) = unequip d h s"

fun run :: "db \<Rightarrow> operation list \<Rightarrow> db option" where
  "run d [] = Some d"
| "run d (c # cs) =
     (case apply_operation d c of
        (None, d') \<Rightarrow> run d' cs
      | (Some e, _) \<Rightarrow> None)"

section \<open>The spec's reading of the slot predicate\<close>

text \<open>
  The spec states the compatibility rule over "the slot's corresponding item-type tag".
  These two definitions follow the spec's words; they are compared with
  \<open>valid_equipment_slot\<close> below.
\<close>

fun slot_tag :: "equipment_slot \<Rightarrow> item_type" where
  "slot_tag Slot_helm = Helm"
| "slot_tag Slot_weapon = Weapon"
| "slot_tag Slot_shield = Shield"
| "slot_tag Slot_armor = Armor"
| "slot_tag Slot_gloves = Gloves"

definition spec_canEquip :: "item_type list \<Rightarrow> equipment_slot \<Rightarrow> bool" where
  "spec_canEquip tys s \<longleftrightarrow>
     slot_tag s \<in> set tys
     \<or> (s \<in> {Slot_weapon, Slot_shield} \<and> Two_handed_weapon \<in> set tys)
     \<or> (s \<in> {Slot_armor, Slot_helm} \<and> Robe \<in> set tys)"

section \<open>Closed forms and a sample database\<close>

text \<open>The one exception the trigger functions raise.\<close>

definition slot_exception :: error where
  "slot_exception = Raised_exception ''Item cannot be equipped in the specified slot''"

text \<open>
  The database after a row \<open>(h, i, s)\<close> has been written and the \<open>AFTER\<close> trigger has
  run; \<open>two_handed\<close> says whether item \<open>i\<close> carries \<open>two_handed_weapon\<close>.
\<close>

definition equipped :: "db \<Rightarrow> uuid \<Rightarrow> uuid \<Rightarrow> equipment_slot \<Rightarrow> bool \<Rightarrow> db" where
  "equipped d h i s two_handed =
     d\<lparr>hero_equipment :=
         (\<lambda>(h', s').
            if h' = h \<and> s' \<in> {Slot_weapon, Slot_shield} \<and> s' \<noteq> s
               \<and> s \<in> {Slot_weapon, Slot_shield} \<and> two_handed
            then None
            else if h' = h \<and> s' = s then Some i
            else hero_equipment d (h', s'))\<rparr>"

text \<open>
  A catalog of six items, one hero who owns two of them and has a buckler in the shield
  slot.
\<close>

definition greatsword :: item where
  "greatsword = \<lparr>name = ''Greatsword'', description = None, item_types = [Two_handed_weapon]\<rparr>"

definition buckler :: item where
  "buckler = \<lparr>name = ''Buckler'', description = None, item_types = [Shield]\<rparr>"

definition wizard_robe :: item where
  "wizard_robe = \<lparr>name = ''Wizard robe'', description = None, item_types = [Robe]\<rparr>"

definition iron_helm :: item where
  "iron_helm = \<lparr>name = ''Iron helm'', description = None, item_types = [Helm]\<rparr>"

definition horned_helm :: item where
  "horned_helm =
     \<lparr>name = ''Horned helm'', description = None, item_types = [Two_handed_weapon, Helm]\<rparr>"

definition short_sword :: item where
  "short_sword = \<lparr>name = ''Short sword'', description = None, item_types = [Weapon]\<rparr>"

definition sample_db :: db where
  "sample_db =
     \<lparr>heroes = {1},
      items = [10 \<mapsto> greatsword, 11 \<mapsto> buckler, 12 \<mapsto> wizard_robe, 13 \<mapsto> iron_helm,
               14 \<mapsto> horned_helm, 15 \<mapsto> short_sword],
      hero_inventory = [(1, 10) \<mapsto> 1, (1, 11) \<mapsto> 2],
      hero_equipment = [(1, Slot_shield) \<mapsto> 11]\<rparr>"

text \<open>The same database with nothing equipped.\<close>

definition empty_equipment :: "db \<Rightarrow> db" where
  "empty_equipment d = d\<lparr>hero_equipment := Map.empty\<rparr>"

text \<open>
  No hero holds one two-handed item in the weapon slot and in the shield slot at once.
\<close>

definition hands_exclusive :: "db \<Rightarrow> bool" where
  "hands_exclusive d \<longleftrightarrow>
     (\<forall>h i it. items d i = Some it \<and> Two_handed_weapon \<in> set (item_types it) \<longrightarrow>
        \<not> (hero_equipment d (h, Slot_weapon) = Some i
           \<and> hero_equipment d (h, Slot_shield) = Some i))"

section \<open>Evaluating the statements\<close>

lemmas sample_defs = sample_db_def greatsword_def buckler_def wizard_robe_def iron_helm_def
  horned_helm_def short_sword_def

lemma slot_cast: "item_type_of_text (equipment_slot_text s) = Inr (slot_tag s)"
  by (cases s) (simp_all add: item_type_of_text_def)

lemma valid_equipment_slot_eq:
  "valid_equipment_slot tys s =
     Inr (slot_tag s \<in> set tys
          \<or> (s \<in> {Slot_weapon, Slot_shield} \<and> Two_handed_weapon \<in> set tys)
          \<or> (s \<in> {Slot_armor, Slot_helm} \<and> Robe \<in> set tys))"
  by (simp add: valid_equipment_slot_def slot_cast)

lemma valid_equipment_slot_cases:
  "valid_equipment_slot tys s = Inr True \<or> valid_equipment_slot tys s = Inr False"
  by (auto simp: valid_equipment_slot_def slot_cast)

lemma triggers_for_simps:
  "triggers_for BEFORE INSERT = [validate_equipment_slot_trigger]"
  "triggers_for BEFORE UPDATE = [validate_equipment_slot_trigger]"
  "triggers_for AFTER INSERT = [enforce_two_handed_weapon]"
  "triggers_for AFTER UPDATE = [enforce_two_handed_weapon]"
  "triggers_for BEFORE DELETE = []"
  "triggers_for AFTER DELETE = []"
  by (simp_all add: triggers_for_def hero_equipment_triggers_def
        validate_equipment_slot_trigger_def enforce_two_handed_weapon_def)

lemma fire_before:
  "fire [validate_equipment_slot_trigger] d r =
     (case items d (item_id r) of
        None \<Rightarrow> Inl slot_exception
      | Some it \<Rightarrow>
          if valid_equipment_slot (item_types it) (slot r) = Inr True then Inr (d, r)
          else Inl slot_exception)"
  using valid_equipment_slot_cases [of "item_types (the (items d (item_id r)))" "slot r"]
  by (auto simp: validate_equipment_slot_trigger_def validate_equipment_slot_def slot_exception_def
      split: option.splits)

lemma fire_after:
  "fire [enforce_two_handed_weapon] d r =
     (if slot r \<in> {Slot_weapon, Slot_shield}
      then check_two_handed_weapon d r else Inr (d, r))"
  by (auto simp: enforce_two_handed_weapon_def check_two_handed_weapon_def split: option.splits)

lemma hero_equipment_update_cong:
  "(\<And>k. f k = g k) \<Longrightarrow> d\<lparr>hero_equipment := f\<rparr> = d\<lparr>hero_equipment := g\<rparr>"
proof -
  assume "\<And>k. f k = g k"
  then have "f = g" by (rule ext)
  then show ?thesis by simp
qed

lemma insert_eq:
  "insert_hero_equipment d \<lparr>hero_id = h, item_id = i, slot = s\<rparr> =
     (case items d i of
        None \<Rightarrow> Inl slot_exception
      | Some it \<Rightarrow>
          if valid_equipment_slot (item_types it) s \<noteq> Inr True then Inl slot_exception
          else if hero_equipment d (h, s) \<noteq> None then Inl (Unique_violation ''hero_equipment_pkey'')
          else if h \<notin> heroes d then Inl (Foreign_key_violation ''hero_equipment_hero_id_fkey'')
          else Inr (equipped d h i s (Two_handed_weapon \<in> set (item_types it))))"
  by (auto simp: insert_hero_equipment_def triggers_for_simps fire_before fire_after
        check_references_def check_hero_reference_def check_item_reference_def store_row_def check_two_handed_weapon_def equipped_def
      simp del: fire.simps split: option.splits intro!: hero_equipment_update_cong)

lemma update_eq:
  "update_hero_equipment d h s i =
     (if hero_equipment d (h, s) = None then Inr d
      else case items d i of
        None \<Rightarrow> Inl slot_exception
      | Some it \<Rightarrow>
          if valid_equipment_slot (item_types it) s \<noteq> Inr True then Inl slot_exception
          else Inr (equipped d h i s (Two_handed_weapon \<in> set (item_types it))))"
  by (auto simp: update_hero_equipment_def triggers_for_simps fire_before fire_after
        check_item_reference_def store_row_def check_two_handed_weapon_def equipped_def
      simp del: fire.simps split: option.splits intro!: hero_equipment_update_cong)

lemma equip_eq:
  "equip d h i s =
     (case items d i of
        None \<Rightarrow> (Some slot_exception, d)
      | Some it \<Rightarrow>
          if valid_equipment_slot (item_types it) s \<noteq> Inr True then (Some slot_exception, d)
          else if hero_equipment d (h, s) = None \<and> h \<notin> heroes d
          then (Some (Foreign_key_violation ''hero_equipment_hero_id_fkey''), d)
          else (None, equipped d h i s (Two_handed_weapon \<in> set (item_types it))))"
  by (auto simp: equip_def run_statement_def insert_eq update_eq split: option.splits)

lemma delete_eq:
  "delete_hero_equipment d h s = Inr (d\<lparr>hero_equipment := (hero_equipment d)((h, s) := None)\<rparr>)"
  by (auto simp: delete_hero_equipment_def triggers_for_simps fun_eq_iff split: option.splits)

lemma unequip_eq:
  "unequip d h s = (None, d\<lparr>hero_equipment := (hero_equipment d)((h, s) := None)\<rparr>)"
  by (simp add: unequip_def run_statement_def delete_eq)

lemma equip_success:
  assumes "equip d h i s = (None, d')"
  obtains it where "items d i = Some it" "valid_equipment_slot (item_types it) s = Inr True"
    "d' = equipped d h i s (Two_handed_weapon \<in> set (item_types it))"
  using assms by (auto simp: equip_eq split: option.splits if_splits)

lemma hero_equipment_equipped:
  "hero_equipment (equipped d h i s b) (h', s') =
     (if h' = h \<and> s' \<in> {Slot_weapon, Slot_shield} \<and> s' \<noteq> s
         \<and> s \<in> {Slot_weapon, Slot_shield} \<and> b
      then None
      else if h' = h \<and> s' = s then Some i
      else hero_equipment d (h', s'))"
  by (simp add: equipped_def)

lemma equipped_other_tables:
  "heroes (equipped d h i s b) = heroes d"
  "items (equipped d h i s b) = items d"
  "hero_inventory (equipped d h i s b) = hero_inventory d"
  by (simp_all add: equipped_def)

lemma equipped_idem: "equipped (equipped d h i s b) h i s b = equipped d h i s b"
  by (auto simp: equipped_def intro!: hero_equipment_update_cong)

lemma equip_keeps_hands_exclusive:
  assumes "equip d h i s = (None, d')" and "hands_exclusive d"
  shows "items d' = items d \<and> hands_exclusive d'"
proof -
  from assms(1) obtain it where it: "items d i = Some it"
    and d': "d' = equipped d h i s (Two_handed_weapon \<in> set (item_types it))"
    by (rule equip_success)
  have "items d' = items d"
    by (simp add: d' equipped_other_tables)
  moreover have "hands_exclusive d'"
    using assms(2) it
    by (cases s) (auto simp: hands_exclusive_def d' equipped_other_tables hero_equipment_equipped)
  ultimately show ?thesis ..
qed

lemma unequip_keeps_hands_exclusive:
  assumes "unequip d h s = (None, d')" and "hands_exclusive d"
  shows "items d' = items d \<and> hands_exclusive d'"
  using assms by (auto simp: unequip_eq hands_exclusive_def split: if_splits)

lemma run_keeps_hands_exclusive:
  "run d cs = Some d' \<Longrightarrow> hands_exclusive d \<Longrightarrow> hands_exclusive d'"
proof (induction cs arbitrary: d)
  case Nil
  then show ?case by simp
next
  case (Cons c cs)
  from Cons.prems(1) obtain d1 where step: "apply_operation d c = (None, d1)"
    and rest: "run d1 cs = Some d'"
    by (auto split: prod.splits option.splits)
  from step Cons.prems(2) have "hands_exclusive d1"
    by (cases c) (auto dest: equip_keeps_hands_exclusive unequip_keeps_hands_exclusive)
  with rest show ?case
    by (rule Cons.IH)
qed

section \<open>The compatibility rule\<close>

text \<open>
  C1. For every item and every slot, the condition of \<open>validate_equipment_slot\<close> holds
  exactly when the slot's tag is among the item's types, or the slot is weapon or shield
  and the item carries \<open>two_handed_weapon\<close>, or the slot is armor or helm and the item
  carries \<open>robe\<close>; the cast of the slot never fails, and the trigger function lets
  \<open>NEW\<close> through in exactly these cases. An item of types \<open>[robe]\<close> is accepted at
  armor and rejected at weapon.
\<close>

theorem valid_equipment_slot_iff:
  "valid_equipment_slot tys s = Inr (spec_canEquip tys s)
   \<and> validate_equipment_slot d new =
       (case items d (item_id new) of
          None \<Rightarrow> Inl (Raised_exception ''Item cannot be equipped in the specified slot'')
        | Some it \<Rightarrow>
            if spec_canEquip (item_types it) (slot new) then Inr (d, new)
            else Inl (Raised_exception ''Item cannot be equipped in the specified slot''))
   \<and> valid_equipment_slot [Robe] Slot_armor = Inr True
   \<and> valid_equipment_slot [Robe] Slot_weapon = Inr False"
proof -
  have eq: "valid_equipment_slot tys' s' = Inr (spec_canEquip tys' s')" for tys' s'
    by (simp add: valid_equipment_slot_def slot_cast spec_canEquip_def)
  have robe: "spec_canEquip [Robe] Slot_armor" "\<not> spec_canEquip [Robe] Slot_weapon"
    by (simp_all add: spec_canEquip_def)
  have "validate_equipment_slot d new =
       (case items d (item_id new) of
          None \<Rightarrow> Inl (Raised_exception ''Item cannot be equipped in the specified slot'')
        | Some it \<Rightarrow>
            if spec_canEquip (item_types it) (slot new) then Inr (d, new)
            else Inl (Raised_exception ''Item cannot be equipped in the specified slot''))"
    by (simp add: validate_equipment_slot_def eq split: option.splits)
  with eq robe show ?thesis by simp
qed

theorem valid_equipment_slot_iff_witness:
  "valid_equipment_slot (item_types wizard_robe) Slot_helm = Inr True
   \<and> valid_equipment_slot (item_types wizard_robe) Slot_gloves = Inr False
   \<and> validate_equipment_slot sample_db \<lparr>hero_id = 1, item_id = 12, slot = Slot_armor\<rparr>
       = Inr (sample_db, \<lparr>hero_id = 1, item_id = 12, slot = Slot_armor\<rparr>)
   \<and> validate_equipment_slot sample_db \<lparr>hero_id = 1, item_id = 12, slot = Slot_weapon\<rparr>
       = Inl (Raised_exception ''Item cannot be equipped in the specified slot'')"
proof -
  have it: "items sample_db 12 = Some wizard_robe"
    by (simp add: sample_db_def)
  have tys: "item_types wizard_robe = [Robe]"
    by (simp add: wizard_robe_def)
  show ?thesis
    using valid_equipment_slot_iff [of "item_types wizard_robe" Slot_helm sample_db
        "\<lparr>hero_id = 1, item_id = 12, slot = Slot_armor\<rparr>"]
      valid_equipment_slot_iff [of "item_types wizard_robe" Slot_gloves sample_db
        "\<lparr>hero_id = 1, item_id = 12, slot = Slot_weapon\<rparr>"]
    by (simp add: it tys spec_canEquip_def)
qed

section \<open>Two-handed weapons\<close>

text \<open>
  C2. When an item that carries \<open>two_handed_weapon\<close> is equipped into the weapon slot
  and the statement succeeds, the hero's shield slot is empty afterwards, whatever it held
  before; equipped into the shield slot, the weapon slot is empty afterwards. The target
  slot holds the item. For a hero of the \<open>heroes\<close> table both statements do succeed.
\<close>

theorem two_handed_clears_sibling:
  assumes "items d i = Some it" and "Two_handed_weapon \<in> set (item_types it)"
  shows "(h \<in> heroes d \<longrightarrow>
            fst (equip d h i Slot_weapon) = None \<and> fst (equip d h i Slot_shield) = None)
       \<and> (equip d h i Slot_weapon = (None, d') \<longrightarrow>
            hero_equipment d' (h, Slot_weapon) = Some i \<and> hero_equipment d' (h, Slot_shield) = None)
       \<and> (equip d h i Slot_shield = (None, d') \<longrightarrow>
            hero_equipment d' (h, Slot_shield) = Some i \<and> hero_equipment d' (h, Slot_weapon) = None)"
proof (intro conjI impI)
  have ok: "valid_equipment_slot (item_types it) Slot_weapon = Inr True"
    "valid_equipment_slot (item_types it) Slot_shield = Inr True"
    using assms(2) by (simp_all add: valid_equipment_slot_eq)
  assume "h \<in> heroes d"
  then show "fst (equip d h i Slot_weapon) = None" "fst (equip d h i Slot_shield) = None"
    using assms(1) ok by (simp_all add: equip_eq)
next
  assume "equip d h i Slot_weapon = (None, d')"
  then have "d' = equipped d h i Slot_weapon True"
    using assms by (auto elim!: equip_success)
  then show "hero_equipment d' (h, Slot_weapon) = Some i" "hero_equipment d' (h, Slot_shield) = None"
    by (simp_all add: hero_equipment_equipped)
next
  assume "equip d h i Slot_shield = (None, d')"
  then have "d' = equipped d h i Slot_shield True"
    using assms by (auto elim!: equip_success)
  then show "hero_equipment d' (h, Slot_shield) = Some i" "hero_equipment d' (h, Slot_weapon) = None"
    by (simp_all add: hero_equipment_equipped)
qed

text \<open>
  The spec's scenario: the greatsword goes into the weapon slot while the shield slot
  holds the buckler, an item of types \<open>[shield]\<close>. Then the other way round: the
  greatsword goes into the shield slot of a hero who has the short sword in the weapon
  slot.
\<close>

theorem two_handed_clears_sibling_witness:
  "hero_equipment sample_db (1, Slot_shield) = Some 11
   \<and> items sample_db 11 = Some buckler
   \<and> item_types buckler = [Shield]
   \<and> items sample_db 10 = Some greatsword
   \<and> item_types greatsword = [Two_handed_weapon]
   \<and> fst (equip sample_db 1 10 Slot_weapon) = None
   \<and> hero_equipment (snd (equip sample_db 1 10 Slot_weapon)) (1, Slot_weapon) = Some 10
   \<and> hero_equipment (snd (equip sample_db 1 10 Slot_weapon)) (1, Slot_shield) = None
   \<and> hero_equipment (equipped sample_db 1 15 Slot_weapon False) (1, Slot_weapon) = Some 15
   \<and> fst (equip (equipped sample_db 1 15 Slot_weapon False) 1 10 Slot_shield) = None
   \<and> hero_equipment (snd (equip (equipped sample_db 1 15 Slot_weapon False) 1 10 Slot_shield))
         (1, Slot_shield) = Some 10
   \<and> hero_equipment (snd (equip (equipped sample_db 1 15 Slot_weapon False) 1 10 Slot_shield))
         (1, Slot_weapon) = None"
proof -
  let ?armed = "equipped sample_db 1 15 Slot_weapon False"
  let ?r1 = "equip sample_db 1 10 Slot_weapon"
  let ?r2 = "equip ?armed 1 10 Slot_shield"
  have it: "items sample_db 10 = Some greatsword" "items ?armed 10 = Some greatsword"
    by (simp_all add: equipped_other_tables sample_db_def)
  have two: "Two_handed_weapon \<in> set (item_types greatsword)"
    by (simp add: greatsword_def)
  have hero: "1 \<in> heroes sample_db" "1 \<in> heroes ?armed"
    by (simp_all add: equipped_other_tables sample_db_def)
  note inst1 = two_handed_clears_sibling [OF it(1) two, of 1 "snd ?r1"]
  note inst2 = two_handed_clears_sibling [OF it(2) two, of 1 "snd ?r2"]
  from inst1 hero(1) have ok1: "fst ?r1 = None"
    by blast
  from inst2 hero(2) have ok2: "fst ?r2 = None"
    by blast
  from ok1 have "?r1 = (None, snd ?r1)"
    by (simp add: prod_eq_iff)
  with inst1 have after1: "hero_equipment (snd ?r1) (1, Slot_weapon) = Some 10"
    "hero_equipment (snd ?r1) (1, Slot_shield) = None"
    by blast+
  from ok2 have "?r2 = (None, snd ?r2)"
    by (simp add: prod_eq_iff)
  with inst2 have after2: "hero_equipment (snd ?r2) (1, Slot_shield) = Some 10"
    "hero_equipment (snd ?r2) (1, Slot_weapon) = None"
    by blast+
  have before: "hero_equipment sample_db (1, Slot_shield) = Some 11"
    "items sample_db 11 = Some buckler" "item_types buckler = [Shield]"
    "item_types greatsword = [Two_handed_weapon]"
    "hero_equipment ?armed (1, Slot_weapon) = Some 15"
    by (simp_all add: hero_equipment_equipped sample_defs)
  from before it(1) ok1 ok2 after1 after2 show ?thesis
    by simp
qed

text \<open>
  C3, as stated, asks for the clearing at every legal target slot. The trigger
  \<open>enforce_two_handed_weapon\<close> has \<open>WHEN (NEW.slot IN ('weapon', 'shield'))\<close>: the
  horned helm carries \<open>two_handed_weapon\<close> and \<open>helm\<close>, it is equipped into the helm
  slot, and the buckler stays in the shield slot.
\<close>

theorem two_handed_outside_hands_counterexample:
  "items sample_db 14 = Some horned_helm
   \<and> Two_handed_weapon \<in> set (item_types horned_helm)
   \<and> valid_equipment_slot (item_types horned_helm) Slot_helm = Inr True
   \<and> fst (equip sample_db 1 14 Slot_helm) = None
   \<and> hero_equipment (snd (equip sample_db 1 14 Slot_helm)) (1, Slot_helm) = Some 14
   \<and> hero_equipment (snd (equip sample_db 1 14 Slot_helm)) (1, Slot_shield) = Some 11"
  by (simp add: equip_eq valid_equipment_slot_eq hero_equipment_equipped sample_defs)

text \<open>
  C3, amended. After a successful equip of an item that carries \<open>two_handed_weapon\<close>:
  when the target slot is weapon, the hero's shield entry is removed; when it is shield,
  the weapon entry is removed; when it is neither, the hero's weapon and shield entries
  are what they were.
\<close>

theorem two_handed_clears_only_from_hands:
  assumes "items d i = Some it" and "Two_handed_weapon \<in> set (item_types it)"
    and "equip d h i s = (None, d')"
  shows "(s = Slot_weapon \<longrightarrow> hero_equipment d' (h, Slot_shield) = None)
       \<and> (s = Slot_shield \<longrightarrow> hero_equipment d' (h, Slot_weapon) = None)
       \<and> (s \<notin> {Slot_weapon, Slot_shield} \<longrightarrow>
            hero_equipment d' (h, Slot_weapon) = hero_equipment d (h, Slot_weapon)
            \<and> hero_equipment d' (h, Slot_shield) = hero_equipment d (h, Slot_shield))"
proof -
  from assms have "d' = equipped d h i s True"
    by (auto elim!: equip_success)
  then show ?thesis
    by (auto simp: hero_equipment_equipped)
qed

theorem two_handed_clears_only_from_hands_witness:
  "hero_equipment sample_db (1, Slot_shield) = Some 11
   \<and> equip sample_db 1 10 Slot_weapon = (None, equipped sample_db 1 10 Slot_weapon True)
   \<and> hero_equipment (equipped sample_db 1 10 Slot_weapon True) (1, Slot_shield) = None
   \<and> hero_equipment (equipped sample_db 1 15 Slot_weapon False) (1, Slot_weapon) = Some 15
   \<and> equip (equipped sample_db 1 15 Slot_weapon False) 1 10 Slot_shield
       = (None, equipped (equipped sample_db 1 15 Slot_weapon False) 1 10 Slot_shield True)
   \<and> hero_equipment (equipped (equipped sample_db 1 15 Slot_weapon False) 1 10 Slot_shield True)
         (1, Slot_weapon) = None
   \<and> equip sample_db 1 14 Slot_helm = (None, equipped sample_db 1 14 Slot_helm True)
   \<and> hero_equipment (equipped sample_db 1 14 Slot_helm True) (1, Slot_shield) = Some 11
   \<and> hero_equipment (equipped sample_db 1 14 Slot_helm True) (1, Slot_weapon) = None"
proof -
  let ?armed = "equipped sample_db 1 15 Slot_weapon False"
  have it: "items sample_db 10 = Some greatsword" "items sample_db 14 = Some horned_helm"
    "items ?armed 10 = Some greatsword"
    by (simp_all add: equipped_other_tables sample_db_def)
  have two: "Two_handed_weapon \<in> set (item_types greatsword)"
    "Two_handed_weapon \<in> set (item_types horned_helm)"
    by (simp_all add: greatsword_def horned_helm_def)
  have run1: "equip sample_db 1 10 Slot_weapon = (None, equipped sample_db 1 10 Slot_weapon True)"
    by (simp add: equip_eq valid_equipment_slot_eq sample_defs)
  have run2: "equip sample_db 1 14 Slot_helm = (None, equipped sample_db 1 14 Slot_helm True)"
    by (simp add: equip_eq valid_equipment_slot_eq sample_defs)
  have run3: "equip ?armed 1 10 Slot_shield = (None, equipped ?armed 1 10 Slot_shield True)"
    by (simp add: equip_eq valid_equipment_slot_eq equipped_other_tables sample_defs)
  have before: "hero_equipment sample_db (1, Slot_shield) = Some 11"
    "hero_equipment sample_db (1, Slot_weapon) = None"
    "hero_equipment ?armed (1, Slot_weapon) = Some 15"
    by (simp_all add: hero_equipment_equipped sample_db_def)
  show ?thesis
    using two_handed_clears_only_from_hands [OF it(1) two(1) run1]
      two_handed_clears_only_from_hands [OF it(2) two(2) run2]
      two_handed_clears_only_from_hands [OF it(3) two(1) run3] run1 run2 run3 before
    by simp
qed

section \<open>Rejection\<close>

text \<open>
  C4. When the item is in the catalog and the slot condition is false for it, equip fails
  with the exception of \<open>validate_equipment_slot\<close> and the whole database, the hero's
  equipment included, is what it was before the call.
\<close>

theorem incompatible_slot_rejected:
  assumes "items d i = Some it" and "valid_equipment_slot (item_types it) s = Inr False"
  shows "equip d h i s =
           (Some (Raised_exception ''Item cannot be equipped in the specified slot''), d)"
  using assms by (simp add: equip_eq slot_exception_def)

theorem incompatible_slot_rejected_witness:
  "items sample_db 13 = Some iron_helm
   \<and> valid_equipment_slot (item_types iron_helm) Slot_weapon = Inr False
   \<and> equip sample_db 1 13 Slot_weapon =
       (Some (Raised_exception ''Item cannot be equipped in the specified slot''), sample_db)"
proof -
  have it: "items sample_db 13 = Some iron_helm"
    by (simp add: sample_db_def)
  have no: "valid_equipment_slot (item_types iron_helm) Slot_weapon = Inr False"
    by (simp add: valid_equipment_slot_eq iron_helm_def)
  from incompatible_slot_rejected [OF it no, of 1] it no show ?thesis
    by simp
qed

text \<open>
  C8, as stated, asks for an error of its own when the item id is not in the catalog.
  \<open>validate_equipment_slot\<close> finds no row of \<open>items\<close> for such an id and raises
  the exception it raises for a mismatch: id 99 is in no row, the iron helm does not fit
  the weapon slot, and both calls fail with the same error.
\<close>

theorem unknown_item_error_counterexample:
  "items sample_db 99 = None
   \<and> items sample_db 13 = Some iron_helm
   \<and> valid_equipment_slot (item_types iron_helm) Slot_weapon = Inr False
   \<and> fst (equip sample_db 1 99 Slot_weapon) = fst (equip sample_db 1 13 Slot_weapon)
   \<and> fst (equip sample_db 1 99 Slot_weapon) =
       Some (Raised_exception ''Item cannot be equipped in the specified slot'')"
  by (simp add: equip_eq valid_equipment_slot_eq slot_exception_def sample_defs)

text \<open>
  C8, amended. When the item id is in no row of \<open>items\<close>, equip fails, for every hero
  and slot, with the exception that a slot mismatch raises, and the database is what it
  was before the call.
\<close>

theorem unknown_item_rejected:
  assumes "items d i = None"
  shows "equip d h i s =
           (Some (Raised_exception ''Item cannot be equipped in the specified slot''), d)"
  using assms by (simp add: equip_eq slot_exception_def)

theorem unknown_item_rejected_witness:
  "items sample_db 99 = None
   \<and> equip sample_db 1 99 Slot_helm =
       (Some (Raised_exception ''Item cannot be equipped in the specified slot''), sample_db)"
proof -
  have no: "items sample_db 99 = None"
    by (simp add: sample_db_def)
  from unknown_item_rejected [OF no, of 1 Slot_helm] no show ?thesis
    by simp
qed

section \<open>Reachable states\<close>

text \<open>
  C5. Start from a database with no equipment and run any sequence of equip and unequip
  operations, each of them successful. In the database reached, no hero has an item that
  carries \<open>two_handed_weapon\<close> in the weapon slot and in the shield slot at once.
\<close>

theorem two_hander_never_in_both_hands:
  assumes "hero_equipment d0 = Map.empty" and "run d0 cs = Some d"
    and "items d i = Some it" and "Two_handed_weapon \<in> set (item_types it)"
  shows "\<not> (hero_equipment d (h, Slot_weapon) = Some i \<and> hero_equipment d (h, Slot_shield) = Some i)"
proof -
  from assms(1) have "hands_exclusive d0"
    by (simp add: hands_exclusive_def)
  with assms(2) have "hands_exclusive d"
    by (rule run_keeps_hands_exclusive)
  with assms(3,4) show ?thesis
    unfolding hands_exclusive_def by blast
qed

text \<open>
  The greatsword is equipped into the weapon slot and then into the shield slot: it ends
  in the shield slot alone.
\<close>

theorem two_hander_never_in_both_hands_witness:
  "hero_equipment (empty_equipment sample_db) = Map.empty
   \<and> run (empty_equipment sample_db) [Equip 1 10 Slot_weapon, Equip 1 10 Slot_shield]
       = Some (equipped (equipped (empty_equipment sample_db) 1 10 Slot_weapon True)
                 1 10 Slot_shield True)
   \<and> hero_equipment (equipped (equipped (empty_equipment sample_db) 1 10 Slot_weapon True)
                        1 10 Slot_shield True) (1, Slot_shield) = Some 10
   \<and> hero_equipment (equipped (equipped (empty_equipment sample_db) 1 10 Slot_weapon True)
                        1 10 Slot_shield True) (1, Slot_weapon) \<noteq> Some 10"
proof -
  let ?d0 = "empty_equipment sample_db"
  let ?d1 = "equipped ?d0 1 10 Slot_weapon True"
  let ?d2 = "equipped ?d1 1 10 Slot_shield True"
  have start: "hero_equipment ?d0 = Map.empty"
    by (simp add: empty_equipment_def)
  have e1: "equip ?d0 1 10 Slot_weapon = (None, ?d1)"
    by (simp add: equip_eq valid_equipment_slot_eq empty_equipment_def sample_defs)
  have e2: "equip ?d1 1 10 Slot_shield = (None, ?d2)"
    by (simp add: equip_eq valid_equipment_slot_eq equipped_other_tables empty_equipment_def
          sample_defs)
  have steps: "run ?d0 [Equip 1 10 Slot_weapon, Equip 1 10 Slot_shield] = Some ?d2"
    by (simp only: run.simps apply_operation.simps e1 e2 prod.case option.case)
  have it: "items ?d2 10 = Some greatsword"
    by (simp add: equipped_other_tables empty_equipment_def sample_db_def)
  have two: "Two_handed_weapon \<in> set (item_types greatsword)"
    by (simp add: greatsword_def)
  have shield: "hero_equipment ?d2 (1, Slot_shield) = Some 10"
    by (simp add: hero_equipment_equipped)
  from two_hander_never_in_both_hands [OF start steps it two, of 1] shield start steps
  show ?thesis
    by simp
qed

section \<open>Idempotence and frames\<close>

text \<open>
  C6. For a hero of the \<open>heroes\<close> table, an item of the catalog and a slot the item
  fits, equip succeeds, and a second equip of the same item into the same slot right
  after it succeeds too and leaves the database exactly as the first call left it.
\<close>

theorem equip_idempotent:
  assumes "h \<in> heroes d" and "items d i = Some it"
    and "valid_equipment_slot (item_types it) s = Inr True"
  shows "\<exists>d'. equip d h i s = (None, d') \<and> equip d' h i s = (None, d')"
proof -
  let ?d' = "equipped d h i s (Two_handed_weapon \<in> set (item_types it))"
  have first: "equip d h i s = (None, ?d')"
    using assms by (simp add: equip_eq)
  have "equip ?d' h i s = (None, equipped ?d' h i s (Two_handed_weapon \<in> set (item_types it)))"
    using assms by (simp add: equip_eq equipped_other_tables)
  then have "equip ?d' h i s = (None, ?d')"
    by (simp only: equipped_idem)
  with first show ?thesis by blast
qed

theorem equip_idempotent_witness:
  "equip sample_db 1 10 Slot_weapon = (None, equipped sample_db 1 10 Slot_weapon True)
   \<and> equip (equipped sample_db 1 10 Slot_weapon True) 1 10 Slot_weapon
       = (None, equipped sample_db 1 10 Slot_weapon True)"
proof -
  have hero: "1 \<in> heroes sample_db" and it: "items sample_db 10 = Some greatsword"
    by (simp_all add: sample_db_def)
  have ok: "valid_equipment_slot (item_types greatsword) Slot_weapon = Inr True"
    by (simp add: valid_equipment_slot_eq greatsword_def)
  have first: "equip sample_db 1 10 Slot_weapon = (None, equipped sample_db 1 10 Slot_weapon True)"
    by (simp add: equip_eq valid_equipment_slot_eq sample_defs)
  from equip_idempotent [OF hero it ok] obtain d'
    where "equip sample_db 1 10 Slot_weapon = (None, d')" and again: "equip d' 1 10 Slot_weapon = (None, d')"
    by blast
  with first have "d' = equipped sample_db 1 10 Slot_weapon True"
    by simp
  with first again show ?thesis
    by simp
qed

text \<open>
  C7. Unequip always succeeds. Afterwards the hero has no row for the slot; every other
  row of \<open>hero_equipment\<close>, the hero's other slots included, is what it was; and when
  the slot was empty already, the database is unchanged. No trigger is declared for
  \<open>DELETE\<close>, so nothing else runs.
\<close>

theorem unequip_removes_only_its_slot:
  "fst (unequip d h s) = None
   \<and> hero_equipment (snd (unequip d h s)) (h, s) = None
   \<and> (\<forall>k. k \<noteq> (h, s) \<longrightarrow> hero_equipment (snd (unequip d h s)) k = hero_equipment d k)
   \<and> (hero_equipment d (h, s) = None \<longrightarrow> snd (unequip d h s) = d)
   \<and> heroes (snd (unequip d h s)) = heroes d
   \<and> items (snd (unequip d h s)) = items d"
proof -
  have "hero_equipment d (h, s) = None \<Longrightarrow> (hero_equipment d)((h, s) := None) = hero_equipment d"
    by (simp add: fun_eq_iff)
  then show ?thesis
    by (simp add: unequip_eq)
qed

theorem unequip_removes_only_its_slot_witness:
  "hero_equipment sample_db (1, Slot_shield) = Some 11
   \<and> fst (unequip sample_db 1 Slot_shield) = None
   \<and> hero_equipment (snd (unequip sample_db 1 Slot_shield)) (1, Slot_shield) = None
   \<and> hero_equipment sample_db (1, Slot_weapon) = None
   \<and> fst (unequip sample_db 1 Slot_weapon) = None
   \<and> snd (unequip sample_db 1 Slot_weapon) = sample_db
   \<and> hero_equipment (snd (unequip sample_db 1 Slot_weapon)) (1, Slot_shield) = Some 11"
proof -
  have before: "hero_equipment sample_db (1, Slot_shield) = Some 11"
    "hero_equipment sample_db (1, Slot_weapon) = None"
    by (simp_all add: sample_db_def)
  have other: "(1, Slot_shield) \<noteq> (1::nat, Slot_weapon)"
    by simp
  show ?thesis
    using unequip_removes_only_its_slot [of sample_db 1 Slot_shield]
      unequip_removes_only_its_slot [of sample_db 1 Slot_weapon] before other
    by metis
qed

text \<open>
  C9. Neither equip, whether it succeeds or fails, nor unequip changes a row of
  \<open>hero_inventory\<close>: the table after the call is the table before it.
\<close>

theorem inventory_untouched:
  "hero_inventory (snd (equip d h i s)) = hero_inventory d
   \<and> hero_inventory (snd (unequip d h s)) = hero_inventory d"
  by (simp add: equip_eq unequip_eq equipped_other_tables split: option.splits)

theorem inventory_untouched_witness:
  "fst (equip sample_db 1 10 Slot_weapon) = None
   \<and> hero_inventory (snd (equip sample_db 1 10 Slot_weapon)) (1, 10) = Some 1
   \<and> hero_inventory (snd (equip sample_db 1 10 Slot_weapon)) (1, 11) = Some 2
   \<and> fst (equip sample_db 1 13 Slot_weapon) \<noteq> None
   \<and> hero_inventory (snd (equip sample_db 1 13 Slot_weapon)) (1, 10) = Some 1
   \<and> hero_inventory (snd (unequip sample_db 1 Slot_shield)) (1, 11) = Some 2"
proof -
  have inv: "hero_inventory sample_db (1, 10) = Some 1" "hero_inventory sample_db (1, 11) = Some 2"
    by (simp_all add: sample_db_def)
  have res: "fst (equip sample_db 1 10 Slot_weapon) = None"
    "fst (equip sample_db 1 13 Slot_weapon) \<noteq> None"
    by (simp_all add: equip_eq valid_equipment_slot_eq sample_defs)
  show ?thesis
    using inventory_untouched [of sample_db 1 10 Slot_weapon]
      inventory_untouched [of sample_db 1 13 Slot_weapon]
      inventory_untouched [of sample_db 1 10 Slot_shield] inv res
    by simp
qed

text \<open>
  C10. A successful equip of an item without \<open>two_handed_weapon\<close> into the weapon or
  the shield slot, which the item fits, writes the target slot and nothing else: the
  sibling slot and every other row of \<open>hero_equipment\<close> are what they were.
\<close>

theorem one_handed_equip_frame:
  assumes "items d i = Some it" and "Two_handed_weapon \<notin> set (item_types it)"
    and "s \<in> {Slot_weapon, Slot_shield}" and "valid_equipment_slot (item_types it) s = Inr True"
    and "equip d h i s = (None, d')"
  shows "hero_equipment d' (h, s) = Some i
       \<and> (\<forall>k. k \<noteq> (h, s) \<longrightarrow> hero_equipment d' k = hero_equipment d k)
       \<and> d' = d\<lparr>hero_equipment := (hero_equipment d)((h, s) \<mapsto> i)\<rparr>"
proof -
  from assms have "d' = equipped d h i s False"
    by (auto elim!: equip_success)
  also have "\<dots> = d\<lparr>hero_equipment := (hero_equipment d)((h, s) \<mapsto> i)\<rparr>"
    by (auto simp: equipped_def intro!: hero_equipment_update_cong)
  finally show ?thesis
    by simp
qed

text \<open>
  The short sword, of types \<open>[weapon]\<close>, goes into the weapon slot; the buckler stays in
  the shield slot.
\<close>

theorem one_handed_equip_frame_witness:
  "equip sample_db 1 15 Slot_weapon = (None, equipped sample_db 1 15 Slot_weapon False)
   \<and> hero_equipment sample_db (1, Slot_shield) = Some 11
   \<and> hero_equipment (equipped sample_db 1 15 Slot_weapon False) (1, Slot_weapon) = Some 15
   \<and> hero_equipment (equipped sample_db 1 15 Slot_weapon False) (1, Slot_shield) = Some 11"
proof -
  have it: "items sample_db 15 = Some short_sword"
    by (simp add: sample_db_def)
  have one: "Two_handed_weapon \<notin> set (item_types short_sword)"
    by (simp add: short_sword_def)
  have hand: "Slot_weapon \<in> {Slot_weapon, Slot_shield}"
    by simp
  have ok: "valid_equipment_slot (item_types short_sword) Slot_weapon = Inr True"
    by (simp add: valid_equipment_slot_eq short_sword_def)
  have res: "equip sample_db 1 15 Slot_weapon = (None, equipped sample_db 1 15 Slot_weapon False)"
    by (simp add: equip_eq valid_equipment_slot_eq sample_defs)
  have before: "hero_equipment sample_db (1, Slot_shield) = Some 11"
    by (simp add: sample_db_def)
  have other: "(1, Slot_shield) \<noteq> (1::nat, Slot_weapon)"
    by simp
  from one_handed_equip_frame [OF it one hand ok res] res before other show ?thesis
    by metis
qed

end
